theory Spec2Isabelle
  imports Complex_Main
begin

text \<open>
  A medication tracker. Its data layer is a PostgreSQL schema with two functions,
  \<open>log_dose\<close> and \<open>get_adherence_summary\<close>; two views of the client, the
  dose-logging page and the reminders page, each compute the schedule of doses and
  classify them against the stored dose logs. The theory embeds these parts and
  compares them with what is specified for them.
\<close>

section \<open>Data model (supabase/schema.sql)\<close>

text \<open>
  Identifiers are UUIDs, modelled as natural numbers. Instants
  (\<open>TIMESTAMP WITH TIME ZONE\<close> in SQL, \<open>Date\<close> in the views) are integers counting
  milliseconds since the epoch. A \<open>DATE\<close> is the number of its day since the epoch.
\<close>

type_synonym uuid = nat
type_synonym timestamptz = int

definition hours :: "int \<Rightarrow> int" where
  "hours n = n * 3600000"

definition days :: "int \<Rightarrow> int" where
  "days n = n * 86400000"

text \<open>
  Table \<open>medications\<close>. The columns \<open>category_id\<close>, \<open>created_at\<close> and
  \<open>updated_at\<close> are read by none of the modelled functions and are left out.
\<close>

record medication =
  med_id :: uuid
  user_id :: uuid
  name :: string
  dose :: string
  frequency_per_day :: int
  start_date :: int
  end_date :: "int option"

text \<open>Table \<open>dose_logs\<close>, with its seven columns.\<close>

record dose_log =
  log_id :: uuid
  medication_id :: uuid
  timestamp_taken :: timestamptz
  scheduled_time :: timestamptz
  taken_on_time :: bool
  reward_earned :: bool
  created_at :: timestamptz

definition dose_logs_columns :: "string list" where
  "dose_logs_columns =
     [''id'', ''medication_id'', ''timestamp_taken'', ''scheduled_time'',
      ''taken_on_time'', ''reward_earned'', ''created_at'']"

text \<open>
  The stored state: the rows of the two tables, and whether row level security is
  switched on for \<open>dose_logs\<close>. The schema file creates the policies of
  \<open>dose_logs\<close> but issues \<open>ENABLE ROW LEVEL SECURITY\<close> for \<open>auth.users\<close> only,
  so the flag is a field of the state rather than a constant.
\<close>

record database =
  medications :: "medication list"
  dose_logs :: "dose_log list"
  dose_logs_rls :: bool

text \<open>
  What a statement reads from its session: \<open>auth.uid()\<close> (NULL when nobody is signed
  in), \<open>NOW()\<close>, and the value \<open>gen_random_uuid()\<close> yields for the row being
  inserted.
\<close>

record session =
  auth_uid :: "uuid option"
  sql_now :: timestamptz
  gen_random_uuid :: uuid

text \<open>The types of SQL values that occur in the arithmetic of the schema's functions.\<close>

datatype sql_type = Integer | Bigint | Numeric | Float8

datatype sql_error =
    NotAuthorized
  | UniqueViolation
  | ForeignKeyViolation
  | PolicyViolation
  | NotNullViolation string
  | UndefinedColumn string
  | UndefinedFunction string "sql_type list"

section \<open>Recording a dose (supabase/schema.sql, log\_dose)\<close>

text \<open>
  SQL comparison is three-valued: \<open>a != b\<close> is NULL as soon as one side is NULL, and
  \<open>IF\<close> runs its branch only when the condition is TRUE.
\<close>

definition sql_ne :: "'a option \<Rightarrow> 'a option \<Rightarrow> bool option" where
  "sql_ne a b = (case a of None \<Rightarrow> None
                 | Some x \<Rightarrow> (case b of None \<Rightarrow> None | Some y \<Rightarrow> Some (x \<noteq> y)))"

definition sql_if :: "bool option \<Rightarrow> bool" where
  "sql_if c = (c = Some True)"

text \<open>
  \<open>INSERT INTO dose_logs\<close>, with the constraints the table declares: the primary key
  on \<open>id\<close> and the foreign key from \<open>medication_id\<close> to \<open>medications(id)\<close>.
  The table declares no other uniqueness constraint.
\<close>

definition insert_dose_log :: "database \<Rightarrow> dose_log \<Rightarrow> sql_error + database" where
  "insert_dose_log db r =
     (if log_id r \<in> set (map log_id (dose_logs db)) then Inl UniqueViolation
      else if medication_id r \<notin> set (map med_id (medications db)) then Inl ForeignKeyViolation
      else Inr (db\<lparr>dose_logs := dose_logs db @ [r]\<rparr>))"

record log_dose_result =
  success :: bool
  res_taken_on_time :: bool
  res_reward_earned :: bool

text \<open>
  \<open>log_dose(p_medication_id, p_scheduled_time, p_actual_time)\<close>. The function is
  \<open>SECURITY DEFINER\<close>: it reads and writes the tables as their owner, past the
  policies of the caller.
  \<open>SELECT user_id INTO v_user_id\<close> leaves \<open>v_user_id\<close> NULL when no row matches.
\<close>

definition select_user_id :: "database \<Rightarrow> uuid \<Rightarrow> uuid option" where
  "select_user_id db p_medication_id =
     map_option user_id (find (\<lambda>m. med_id m = p_medication_id) (medications db))"

definition log_dose ::
  "database \<Rightarrow> session \<Rightarrow> uuid \<Rightarrow> timestamptz \<Rightarrow> timestamptz
     \<Rightarrow> sql_error + (database \<times> log_dose_result)" where
  "log_dose db s p_medication_id p_scheduled_time p_actual_time =
     (let v_user_id = select_user_id db p_medication_id in
      if sql_if (sql_ne v_user_id (auth_uid s)) then Inl NotAuthorized
      else
        let v_taken_on_time = (p_actual_time \<le> p_scheduled_time + hours 4);
            v_reward_earned = v_taken_on_time
        in case insert_dose_log db
                  \<lparr>log_id = gen_random_uuid s,
                   medication_id = p_medication_id,
                   timestamp_taken = p_actual_time,
                   scheduled_time = p_scheduled_time,
                   taken_on_time = v_taken_on_time,
                   reward_earned = v_reward_earned,
                   created_at = sql_now s\<rparr> of
             Inl e \<Rightarrow> Inl e
           | Inr db' \<Rightarrow>
               Inr (db', \<lparr>success = True,
                          res_taken_on_time = v_taken_on_time,
                          res_reward_earned = v_reward_earned\<rparr>))"

section \<open>Direct inserts through the REST interface\<close>

text \<open>
  The policy \<open>Users can insert own dose logs\<close>: a medication with the row's
  \<open>medication_id\<close> exists and belongs to \<open>auth.uid()\<close>. It is in force only
  when row level security is enabled on the table.
\<close>

definition insert_policy :: "database \<Rightarrow> session \<Rightarrow> uuid \<Rightarrow> bool" where
  "insert_policy db s mid =
     list_ex (\<lambda>m. med_id m = mid \<and> Some (user_id m) = auth_uid s) (medications db)"

text \<open>
  A row object sent by \<open>supabase.from('dose_logs').insert([...])\<close>. For each column
  of the table it holds the value sent under the key of that name, or \<open>None\<close> when
  the object has no such key; \<open>other_keys\<close> are the keys of the object that are none
  of these seven names, in their order. Values have the type of their column and are
  never null, as the \<open>Insert\<close> type of \<open>database.types.ts\<close> has it.
\<close>

record dose_log_insert =
  ins_id :: "uuid option"
  ins_medication_id :: "uuid option"
  ins_timestamp_taken :: "timestamptz option"
  ins_scheduled_time :: "timestamptz option"
  ins_taken_on_time :: "bool option"
  ins_reward_earned :: "bool option"
  ins_created_at :: "timestamptz option"
  other_keys :: "string list"

text \<open>The keys of the row object: the insert names each of them as a target column.\<close>

definition named_columns :: "dose_log_insert \<Rightarrow> string list" where
  "named_columns p =
     (if ins_id p = None then [] else [''id''])
     @ (if ins_medication_id p = None then [] else [''medication_id''])
     @ (if ins_timestamp_taken p = None then [] else [''timestamp_taken''])
     @ (if ins_scheduled_time p = None then [] else [''scheduled_time''])
     @ (if ins_taken_on_time p = None then [] else [''taken_on_time''])
     @ (if ins_reward_earned p = None then [] else [''reward_earned''])
     @ (if ins_created_at p = None then [] else [''created_at''])
     @ other_keys p"

text \<open>
  The insert fails when it names a column the table does not have. A column that is
  not named takes its default: \<open>gen_random_uuid()\<close> for \<open>id\<close>, \<open>NOW()\<close> for
  \<open>created_at\<close>, false for \<open>reward_earned\<close>, and NULL for the other four, which
  are declared \<open>NOT NULL\<close>. An \<open>id\<close> that is named is stored as sent, so the
  primary key refuses it when a row has it already.
\<close>

definition rest_insert_dose_logs ::
  "database \<Rightarrow> session \<Rightarrow> dose_log_insert \<Rightarrow> sql_error + database" where
  "rest_insert_dose_logs db s p =
     (case find (\<lambda>c. c \<notin> set dose_logs_columns) (named_columns p) of
        Some c \<Rightarrow> Inl (UndefinedColumn c)
      | None \<Rightarrow>
          if dose_logs_rls db
             \<and> \<not> (case ins_medication_id p of None \<Rightarrow> False
                    | Some mid \<Rightarrow> insert_policy db s mid)
          then Inl PolicyViolation
          else
            case ins_medication_id p of
              None \<Rightarrow> Inl (NotNullViolation ''medication_id'')
            | Some mid \<Rightarrow>
            case ins_timestamp_taken p of
              None \<Rightarrow> Inl (NotNullViolation ''timestamp_taken'')
            | Some taken \<Rightarrow>
            case ins_scheduled_time p of
              None \<Rightarrow> Inl (NotNullViolation ''scheduled_time'')
            | Some sched \<Rightarrow>
            case ins_taken_on_time p of
              None \<Rightarrow> Inl (NotNullViolation ''taken_on_time'')
            | Some on_time \<Rightarrow>
                insert_dose_log db
                  \<lparr>log_id = (case ins_id p of None \<Rightarrow> gen_random_uuid s | Some i \<Rightarrow> i),
                   medication_id = mid,
                   timestamp_taken = taken,
                   scheduled_time = sched,
                   taken_on_time = on_time,
                   reward_earned = (case ins_reward_earned p of None \<Rightarrow> False
                                    | Some b \<Rightarrow> b),
                   created_at = (case ins_created_at p of None \<Rightarrow> sql_now s
                                 | Some c \<Rightarrow> c)\<rparr>)"

section \<open>JavaScript numbers\<close>

text \<open>
  The views compute the hour of a dose in JavaScript numbers, which are binary
  floating-point numbers with 53 significant bits. A pair \<open>(m, e)\<close> stands for the
  number \<open>m * 2 ^ e\<close>. Every operation computes the exact result and rounds it to 53
  significant bits, to nearest and to even on a tie, as IEEE 754 prescribes. Infinities,
  NaN and the limits of the exponent are left out: the views divide by the frequency
  inside a loop that runs only when the frequency is at least 1, and the numbers they
  compute there are far from the limits of the exponent.
\<close>

type_synonym double = "int \<times> int"

fun bit_length :: "nat \<Rightarrow> nat" where
  "bit_length n = (if n = 0 then 0 else Suc (bit_length (n div 2)))"

declare bit_length.simps [simp del]

text \<open>The quotient of \<open>a \<ge> 0\<close> by \<open>b > 0\<close>, rounded to the nearest integer.\<close>

definition round_half_even_div :: "int \<Rightarrow> int \<Rightarrow> int" where
  "round_half_even_div a b =
     (let q = a div b; r = a mod b
      in if 2 * r < b then q
         else if b < 2 * r then q + 1
         else if even q then q else q + 1)"

text \<open>Rounding to 53 significant bits.\<close>

definition fl :: "double \<Rightarrow> double" where
  "fl x =
     (let k = int (bit_length (nat \<bar>fst x\<bar>)) - 53
      in if k \<le> 0 then x
         else (sgn (fst x) * round_half_even_div \<bar>fst x\<bar> (2 ^ nat k), snd x + k))"

text \<open>An integer below \<open>2 ^ 53\<close> in absolute value is a number as it stands.\<close>

definition js_of_int :: "int \<Rightarrow> double" where
  "js_of_int n = (n, 0)"

definition js_mul :: "double \<Rightarrow> double \<Rightarrow> double" where
  "js_mul a b = fl (fst a * fst b, snd a + snd b)"

definition js_add :: "double \<Rightarrow> double \<Rightarrow> double" where
  "js_add a b =
     (let e = min (snd a) (snd b)
      in fl (fst a * 2 ^ nat (snd a - e) + fst b * 2 ^ nat (snd b - e), e))"

text \<open>
  Division scales the dividend so that the quotient of the two significands has exactly
  53 bits before it is rounded. The divisor is not zero where the views divide.
\<close>

definition js_div :: "double \<Rightarrow> double \<Rightarrow> double" where
  "js_div a b =
     (let m1 = \<bar>fst a\<bar>; m2 = \<bar>fst b\<bar>;
          s0 = 53 + int (bit_length (nat m2)) - int (bit_length (nat m1));
          num = (\<lambda>s. if 0 \<le> s then m1 * 2 ^ nat s else m1);
          den = (\<lambda>s. if 0 \<le> s then m2 else m2 * 2 ^ nat (- s));
          s = (if 2 ^ 53 \<le> num s0 div den s0 then s0 - 1 else s0)
      in if m1 = 0 \<or> m2 = 0 then (0, 0)
         else (sgn (fst a) * sgn (fst b) * round_half_even_div (num s) (den s),
               snd a - snd b - s))"

text \<open>\<open>Math.floor\<close>, the truncation of \<open>setHours\<close>, and \<open>x % 1\<close>.\<close>

definition js_floor :: "double \<Rightarrow> int" where
  "js_floor x =
     (if 0 \<le> snd x then fst x * 2 ^ nat (snd x) else fst x div 2 ^ nat (- snd x))"

definition js_trunc :: "double \<Rightarrow> int" where
  "js_trunc x = (if 0 \<le> fst x then js_floor x else - js_floor (- fst x, snd x))"

definition js_mod1 :: "double \<Rightarrow> double" where
  "js_mod1 x =
     (if 0 \<le> snd x then (0, 0)
      else (sgn (fst x) * (\<bar>fst x\<bar> mod 2 ^ nat (- snd x)), snd x))"

section \<open>Dates in the views\<close>

text \<open>
  The views compute with JavaScript \<open>Date\<close> objects in the local time zone. The zone
  is modelled by a fixed offset \<open>tz\<close> in milliseconds east of UTC, that is without
  daylight-saving transitions. \<open>startOfDay\<close> is \<open>setHours(0, 0, 0, 0)\<close>.
\<close>

definition startOfDay :: "int \<Rightarrow> int \<Rightarrow> int" where
  "startOfDay tz t = ((t + tz) div days 1) * days 1 - tz"

text \<open>
  \<open>setHours(h, min, 0, 0)\<close>: the time within the day is built from the integer parts
  of the arguments, truncated toward zero.
\<close>

definition setHours :: "int \<Rightarrow> int \<Rightarrow> double \<Rightarrow> double \<Rightarrow> int" where
  "setHours tz t h mn = startOfDay tz t + hours (js_trunc h) + js_trunc mn * 60000"

definition endOfDay :: "int \<Rightarrow> int \<Rightarrow> int" where
  "endOfDay tz t = startOfDay tz t + hours 23 + 59 * 60000 + 59 * 1000 + 999"

definition addHours :: "int \<Rightarrow> int \<Rightarrow> int" where
  "addHours t n = t + hours n"

definition addDays :: "int \<Rightarrow> int \<Rightarrow> int" where
  "addDays t n = t + days n"

definition isWithinInterval :: "int \<Rightarrow> int \<Rightarrow> int \<Rightarrow> bool" where
  "isWithinInterval t start end = (start \<le> t \<and> t \<le> end)"

definition isSameDay :: "int \<Rightarrow> int \<Rightarrow> int \<Rightarrow> bool" where
  "isSameDay tz a b = (startOfDay tz a = startOfDay tz b)"

definition isToday :: "int \<Rightarrow> int \<Rightarrow> int \<Rightarrow> bool" where
  "isToday tz now t = isSameDay tz t now"

definition isTomorrow :: "int \<Rightarrow> int \<Rightarrow> int \<Rightarrow> bool" where
  "isTomorrow tz now t = isSameDay tz t (addDays now 1)"

definition isFuture :: "int \<Rightarrow> int \<Rightarrow> bool" where
  "isFuture now t = (now < t)"

text \<open>
  \<open>x.slice(0, 16)\<close> of an ISO timestamp in UTC is the timestamp up to its minute.
\<close>

definition iso_minute :: "int \<Rightarrow> int" where
  "iso_minute t = t div 60000"

section \<open>The schedule of a day (both views)\<close>

text \<open>
  \<open>const hour = 8 + (i * (16 / frequency))\<close> and
  \<open>scheduledTime.setHours(Math.floor(hour), (hour % 1) * 60, 0, 0)\<close>, in the
  arithmetic of JavaScript numbers: the quotient, the product, the sum and the number of
  minutes are each rounded.
\<close>

definition dose_hour :: "int \<Rightarrow> int \<Rightarrow> double" where
  "dose_hour frequency i =
     js_add (js_of_int 8)
       (js_mul (js_of_int i) (js_div (js_of_int 16) (js_of_int frequency)))"

definition scheduledTimeOf :: "int \<Rightarrow> int \<Rightarrow> int \<Rightarrow> int \<Rightarrow> int" where
  "scheduledTimeOf tz day frequency i =
     (let hour = dose_hour frequency i
      in setHours tz day (js_of_int (js_floor hour)) (js_mul (js_mod1 hour) (js_of_int 60)))"

text \<open>The hour and minute on the clock of dose \<open>i\<close>.\<close>

definition dose_clock :: "int \<Rightarrow> int \<Rightarrow> int \<times> int" where
  "dose_clock frequency i =
     (let hour = dose_hour frequency i
      in (js_trunc (js_of_int (js_floor hour)),
          js_trunc (js_mul (js_mod1 hour) (js_of_int 60))))"

text \<open>
  Both views look a dose up in the fetched logs by medication id and by the first 16
  characters of the scheduled time.
\<close>

definition find_doseLog :: "dose_log list \<Rightarrow> medication \<Rightarrow> int \<Rightarrow> dose_log option" where
  "find_doseLog logs m st =
     find (\<lambda>log. medication_id log = med_id m
                \<and> iso_minute (scheduled_time log) = iso_minute st) logs"

section \<open>The dose-logging view (DoseLogging, generateScheduledDoses)\<close>

datatype status = Pending | Taken | Late | Missed

record dose_base =
  medication :: medication
  doseNumber :: int
  scheduledTime :: int

record scheduled_dose = dose_base +
  status :: status

definition dose_status :: "dose_log list \<Rightarrow> int \<Rightarrow> medication \<Rightarrow> int \<Rightarrow> status" where
  "dose_status logs now m st =
     (case find_doseLog logs m st of
        Some doseLog \<Rightarrow> Taken
      | None \<Rightarrow>
          if now > addHours st 4 then Missed
          else if now > st then Late
          else Pending)"

definition logging_dose ::
  "int \<Rightarrow> dose_log list \<Rightarrow> int \<Rightarrow> int \<Rightarrow> medication \<Rightarrow> int \<Rightarrow> scheduled_dose" where
  "logging_dose tz logs now today m i =
     (let st = scheduledTimeOf tz today (frequency_per_day m) i
      in \<lparr>medication = m, doseNumber = i + 1, scheduledTime = st,
          status = dose_status logs now m st\<rparr>)"

text \<open>
  The clock is read once here; the view reads it twice in a row (\<open>today\<close> and
  \<open>now\<close>). The final sort is stable.
\<close>

definition logging_generateScheduledDoses ::
  "int \<Rightarrow> dose_log list \<Rightarrow> medication list \<Rightarrow> int \<Rightarrow> scheduled_dose list" where
  "logging_generateScheduledDoses tz todaysLogs meds now =
     (let today = startOfDay tz now
      in sort_key scheduledTime
           (concat (map (\<lambda>m. map (logging_dose tz todaysLogs now today m)
                                [0 .. frequency_per_day m - 1]) meds)))"

definition getStatusBadge :: "status \<Rightarrow> string" where
  "getStatusBadge s =
     (case s of Taken \<Rightarrow> ''Taken'' | Late \<Rightarrow> ''Due Now'' | Missed \<Rightarrow> ''Missed''
      | Pending \<Rightarrow> ''Upcoming'')"

text \<open>
  \<open>handleMarkAsMissed\<close>, the insert it issues: the row object carries the keys
  \<open>missed\<close> and \<open>user_id\<close> besides five columns of the table; \<open>clock\<close> is
  \<open>new Date()\<close>.
\<close>

definition handleMarkAsMissed ::
  "database \<Rightarrow> session \<Rightarrow> scheduled_dose \<Rightarrow> int \<Rightarrow> sql_error + database" where
  "handleMarkAsMissed db s d clock =
     rest_insert_dose_logs db s
       \<lparr>ins_id = None,
        ins_medication_id = Some (med_id (medication d)),
        ins_timestamp_taken = Some clock,
        ins_scheduled_time = Some (scheduledTime d),
        ins_taken_on_time = Some False,
        ins_reward_earned = Some False,
        ins_created_at = None,
        other_keys = [''missed'', ''user_id'']\<rparr>"

text \<open>
  The page keeps two maps of flags, \<open>justTaken\<close> and \<open>justMissed\<close>, keyed by
  medication id, dose number and scheduled time. The handler sets the flag
  \<open>justMissed\<close> of the dose before it issues the insert, and nothing resets it.
\<close>

type_synonym dose_key = "uuid \<times> int \<times> int"

definition doseKey :: "scheduled_dose \<Rightarrow> dose_key" where
  "doseKey d = (med_id (medication d), doseNumber d, scheduledTime d)"

record page_flags =
  justTaken :: "dose_key \<Rightarrow> bool"
  justMissed :: "dose_key \<Rightarrow> bool"

definition handleMarkAsMissed_page ::
  "page_flags \<Rightarrow> database \<Rightarrow> session \<Rightarrow> scheduled_dose \<Rightarrow> int
     \<Rightarrow> page_flags \<times> (sql_error + database)" where
  "handleMarkAsMissed_page flags db s d clock =
     (flags\<lparr>justMissed := (justMissed flags)(doseKey d := True)\<rparr>,
      handleMarkAsMissed db s d clock)"

text \<open>
  The badge of a card:
  \<open>isJustTaken ? getStatusBadge('taken') : isJustMissed ? getStatusBadge('missed')
  : getStatusBadge(dose.status)\<close>; and whether the card carries the line
  \<open>Medication Missed\<close>.
\<close>

definition shownBadge :: "page_flags \<Rightarrow> scheduled_dose \<Rightarrow> string" where
  "shownBadge flags d =
     (if justTaken flags (doseKey d) then getStatusBadge Taken
      else if justMissed flags (doseKey d) then getStatusBadge Missed
      else getStatusBadge (status d))"

definition showsMedicationMissed :: "page_flags \<Rightarrow> scheduled_dose \<Rightarrow> bool" where
  "showsMedicationMissed flags d = (status d = Missed \<or> justMissed flags (doseKey d))"

section \<open>The reminders view (Reminders, generateScheduledDoses)\<close>

record reminder_dose = dose_base +
  isToday_flag :: bool
  isTomorrow_flag :: bool
  isUpcoming :: bool
  isDue :: bool

definition reminders_dose ::
  "int \<Rightarrow> dose_log list \<Rightarrow> int \<Rightarrow> int \<Rightarrow> medication \<Rightarrow> int \<Rightarrow> reminder_dose option" where
  "reminders_dose tz doseLogs now currentDate m i =
     (let st = scheduledTimeOf tz currentDate (frequency_per_day m) i
      in case find_doseLog doseLogs m st of
           Some doseLog \<Rightarrow> None
         | None \<Rightarrow>
             if st > now \<or> isWithinInterval now st (addHours st 4)
             then Some \<lparr>medication = m, doseNumber = i + 1, scheduledTime = st,
                        isToday_flag = isToday tz now st,
                        isTomorrow_flag = isTomorrow tz now st,
                        isUpcoming = (\<not> isToday tz now st \<and> \<not> isTomorrow tz now st
                                      \<and> isFuture now st),
                        isDue = isWithinInterval now st (addHours st 4)\<rparr>
             else None)"

text \<open>
  \<open>new Date(medication.start_date)\<close> is midnight UTC of that date; the end of the
  range is one year from now when the medication has no end date.
\<close>

definition reminders_medication_doses ::
  "int \<Rightarrow> dose_log list \<Rightarrow> int \<Rightarrow> int \<Rightarrow> medication \<Rightarrow> reminder_dose list" where
  "reminders_medication_doses tz doseLogs now currentDate m =
     (let startDate = startOfDay tz (days (start_date m));
          endDate = endOfDay tz (case end_date m of Some e \<Rightarrow> days e
                                 | None \<Rightarrow> addDays now 365)
      in if currentDate \<ge> startDate \<and> currentDate \<le> endDate
         then List.map_filter (reminders_dose tz doseLogs now currentDate m)
                [0 .. frequency_per_day m - 1]
         else [])"

definition reminders_generateScheduledDoses ::
  "int \<Rightarrow> dose_log list \<Rightarrow> medication list \<Rightarrow> int \<Rightarrow> reminder_dose list" where
  "reminders_generateScheduledDoses tz doseLogs meds now =
     sort_key scheduledTime
       (concat (map (\<lambda>dayOffset.
                       concat (map (reminders_medication_doses tz doseLogs now
                                      (startOfDay tz (addDays now dayOffset))) meds))
                  [0 .. 6]))"

section \<open>The adherence summary (supabase/schema.sql, get\_adherence\_summary)\<close>

text \<open>
  \<open>DATE_TRUNC('day', scheduled_time)\<close>, in a session whose time zone is UTC, is
  represented by the number of the day.
\<close>

definition date_trunc_day :: "timestamptz \<Rightarrow> int" where
  "date_trunc_day t = t div days 1"

text \<open>
  \<open>FROM dose_logs dl JOIN medications m ON m.id = dl.medication_id
  WHERE m.user_id = p_user_id AND scheduled_time >= NOW() - INTERVAL '7 days'\<close>
\<close>

definition joined_rows ::
  "database \<Rightarrow> uuid \<Rightarrow> timestamptz \<Rightarrow> (dose_log \<times> medication) list" where
  "joined_rows db p_user_id now =
     concat (map (\<lambda>dl. map (Pair dl)
                          (filter (\<lambda>m. med_id m = medication_id dl
                                       \<and> user_id m = p_user_id
                                       \<and> scheduled_time dl \<ge> now - days 7)
                             (medications db)))
               (dose_logs db))"

text \<open>\<open>GROUP BY DATE_TRUNC('day', scheduled_time), m.name\<close>\<close>

definition group_key :: "dose_log \<times> medication \<Rightarrow> int \<times> string" where
  "group_key r = (date_trunc_day (scheduled_time (fst r)), name (snd r))"

record adherence_row =
  date :: int
  total_doses :: int
  sum_taken_on_time :: int
  medication_name :: string
  missed_count :: int

definition adherence_group ::
  "(dose_log \<times> medication) list \<Rightarrow> int \<times> string \<Rightarrow> adherence_row" where
  "adherence_group rows k =
     (let g = filter (\<lambda>r. group_key r = k) rows
      in \<lparr>date = fst k,
          total_doses = int (length g),
          sum_taken_on_time = sum_list (map (\<lambda>r. if taken_on_time (fst r) then 1 else 0) g),
          medication_name = snd k,
          missed_count = int (length (filter (\<lambda>r. \<not> taken_on_time (fst r)) g))\<rparr>)"

definition adherence_data :: "database \<Rightarrow> uuid \<Rightarrow> timestamptz \<Rightarrow> adherence_row list" where
  "adherence_data db p_user_id now =
     (let rows = joined_rows db p_user_id now
      in map (adherence_group rows) (remdups (map group_key rows)))"

subsection \<open>The types of the rounded expressions\<close>

text \<open>
  Before a statement runs, every function call in it is resolved against the declared
  functions by the types of its arguments. The type of an arithmetic expression, and of
  a \<open>CASE\<close>, over two numeric types is the wider of the two; \<open>AVG\<close> of a
  \<open>float\<close> is a \<open>float\<close>, of any other numeric type a \<open>numeric\<close>.
\<close>

definition promote :: "sql_type \<Rightarrow> sql_type \<Rightarrow> sql_type" where
  "promote a b =
     (if a = Float8 \<or> b = Float8 then Float8
      else if a = Numeric \<or> b = Numeric then Numeric
      else if a = Bigint \<or> b = Bigint then Bigint
      else Integer)"

definition avg_type :: "sql_type \<Rightarrow> sql_type" where
  "avg_type t = (if t = Float8 then Float8 else Numeric)"

text \<open>
  \<open>(taken_on_time::float / total_doses) * 100\<close>: a \<open>float\<close> by the cast, divided by
  the \<open>bigint\<close> of \<open>COUNT(*)\<close>, times an integer constant.
\<close>

definition rate_type :: sql_type where
  "rate_type = promote (promote Float8 Bigint) Integer"

text \<open>\<open>AVG(CASE WHEN total_doses > 0 THEN ... * 100 ELSE 0 END)\<close>\<close>

definition weekly_type :: sql_type where
  "weekly_type = avg_type (promote rate_type Integer)"

text \<open>
  The casts that are applied without being written: from a narrower numeric type to a
  wider one. A \<open>float\<close> is cast to \<open>numeric\<close> in an assignment or by an explicit
  cast only.
\<close>

definition implicit_cast :: "sql_type \<Rightarrow> sql_type \<Rightarrow> bool" where
  "implicit_cast a b =
     ((a, b) \<in> set [(Integer, Bigint), (Integer, Numeric), (Integer, Float8),
                    (Bigint, Numeric), (Bigint, Float8), (Numeric, Float8)])"

text \<open>
  The functions named \<open>round\<close> that PostgreSQL declares: \<open>round(double precision)\<close>,
  \<open>round(numeric)\<close> and \<open>round(numeric, integer)\<close>. A call resolves to a function of
  as many parameters as it has arguments, each argument having the type of the parameter
  or an implicit cast to it; when there is none, the statement raises
  \<open>undefined_function\<close>.
\<close>

definition round_signatures :: "sql_type list list" where
  "round_signatures = [Float8] # [Numeric] # [Numeric, Integer] # []"

definition resolve_round :: "sql_type list \<Rightarrow> sql_error + sql_type list" where
  "resolve_round args =
     (case find (list_all2 (\<lambda>a t. a = t \<or> implicit_cast a t) args) round_signatures of
        None \<Rightarrow> Inl (UndefinedFunction ''round'' args)
      | Some sig \<Rightarrow> Inr sig)"

text \<open>\<open>round(numeric, integer)\<close>: to \<open>n\<close> decimals, halves away from zero.\<close>

definition round_numeric :: "rat \<Rightarrow> int \<Rightarrow> rat" where
  "round_numeric x n =
     (let p = (if 0 \<le> n then 10 ^ nat n else 1 / 10 ^ nat (- n))
      in sgn x * of_int \<lfloor>\<bar>x\<bar> * p + 1 / 2\<rfloor> / p)"

subsection \<open>The function\<close>

definition group_rate :: "adherence_row \<Rightarrow> rat" where
  "group_rate r =
     (if total_doses r > 0
      then (of_int (sum_taken_on_time r) / of_int (total_doses r)) * 100
      else 0)"

text \<open>
  The subquery of \<open>most_missed\<close>: \<open>SELECT medication_name, SUM(missed_count) ...
  GROUP BY medication_name ORDER BY missed_count DESC LIMIT 5\<close>. The query does not say
  in which order rows of equal \<open>missed_count\<close> come; \<open>rank\<close> stands for that choice
  of the executor.
\<close>

definition missed_by_medication :: "adherence_row list \<Rightarrow> (string \<times> int) list" where
  "missed_by_medication ad =
     map (\<lambda>n. (n, sum_list (map missed_count (filter (\<lambda>r. medication_name r = n) ad))))
       (remdups (map medication_name ad))"

definition order_by_missed_count_desc ::
  "(string \<Rightarrow> nat) \<Rightarrow> (string \<times> int) list \<Rightarrow> (string \<times> int) list" where
  "order_by_missed_count_desc rank rows =
     sort_key (\<lambda>r. - snd r) (sort_key (\<lambda>r. rank (fst r)) rows)"

record adherence_summary =
  weekly_adherence :: "rat option"
  most_missed :: "(string \<times> int) list option"
  calendar_data :: "(int \<times> rat) list option"

text \<open>
  \<open>get_adherence_summary(p_user_id)\<close> consists of one statement,
  \<open>SELECT json_build_object(...) INTO v_result\<close>, which calls \<open>ROUND\<close> twice: on the
  average for \<open>weekly_adherence\<close> and on the rate of each group for
  \<open>calendar_data\<close>, each time with the integer 2. The statement is evaluated only
  when both calls resolve; an aggregate over no rows (\<open>AVG\<close>, \<open>json_agg\<close>) is NULL,
  and the arithmetic of the rates is written exactly.
\<close>

definition get_adherence_summary ::
  "(string \<Rightarrow> nat) \<Rightarrow> database \<Rightarrow> uuid \<Rightarrow> timestamptz
     \<Rightarrow> sql_error + adherence_summary" where
  "get_adherence_summary rank db p_user_id now =
     (case resolve_round [weekly_type, Integer] of
        Inl e \<Rightarrow> Inl e
      | Inr sig_weekly \<Rightarrow>
     (case resolve_round [rate_type, Integer] of
        Inl e \<Rightarrow> Inl e
      | Inr sig_calendar \<Rightarrow>
          let ad = adherence_data db p_user_id now
          in Inr \<lparr>weekly_adherence =
                    (if ad = [] then None
                     else Some (round_numeric
                                  (sum_list (map group_rate ad) / of_nat (length ad)) 2)),
                  most_missed =
                    (if ad = [] then None
                     else Some (take 5 (order_by_missed_count_desc rank
                                          (missed_by_medication ad)))),
                  calendar_data =
                    (if ad = [] then None
                     else Some (map (\<lambda>r. (date r, round_numeric (group_rate r) 2)) ad))\<rparr>))"

section \<open>Example data\<close>

definition med1 :: medication where
  "med1 = \<lparr>med_id = 1, user_id = 7, name = ''Aspirin'', dose = ''100mg'',
           frequency_per_day = 2, start_date = 0, end_date = None\<rparr>"

definition medA :: medication where
  "medA = \<lparr>med_id = 2, user_id = 7, name = ''Vitamin D'', dose = ''1 tablet'',
           frequency_per_day = 1, start_date = 0, end_date = None\<rparr>"

definition db0 :: database where
  "db0 = \<lparr>medications = [med1], dose_logs = [], dose_logs_rls = False\<rparr>"

definition dbA :: database where
  "dbA = \<lparr>medications = [medA], dose_logs = [], dose_logs_rls = False\<rparr>"

definition sess :: "uuid \<Rightarrow> timestamptz \<Rightarrow> session" where
  "sess i t = \<lparr>auth_uid = Some 7, sql_now = t, gen_random_uuid = i\<rparr>"

text \<open>A log of medication 1 scheduled at hour \<open>h\<close> of day \<open>d\<close>.\<close>

definition log_at :: "uuid \<Rightarrow> int \<Rightarrow> int \<Rightarrow> bool \<Rightarrow> dose_log" where
  "log_at i d h on_time =
     \<lparr>log_id = i, medication_id = 1, timestamp_taken = days d + hours h + 60000,
      scheduled_time = days d + hours h, taken_on_time = on_time,
      reward_earned = on_time, created_at = days d + hours h + 60000\<rparr>"

text \<open>Seven logs of one day, six of them on time.\<close>

definition db_day :: database where
  "db_day = db0\<lparr>dose_logs :=
     [log_at 1 1 8 True, log_at 2 1 9 True, log_at 3 1 10 True, log_at 4 1 11 True,
      log_at 5 1 12 True, log_at 6 1 13 True, log_at 7 1 14 False]\<rparr>"

text \<open>One log, not on time.\<close>

definition db_missed :: database where
  "db_missed = db0\<lparr>dose_logs := [log_at 1 1 8 False]\<rparr>"

definition no_rank :: "string \<Rightarrow> nat" where
  "no_rank n = 0"

text \<open>The stored logs of an occurrence: same medication, same scheduled minute.\<close>

definition logs_for :: "database \<Rightarrow> uuid \<Rightarrow> timestamptz \<Rightarrow> dose_log list" where
  "logs_for db m sch =
     filter (\<lambda>l. medication_id l = m \<and> iso_minute (scheduled_time l) = iso_minute sch)
       (dose_logs db)"

text \<open>
  The 08:00 dose of medication 1 recorded at 09:30, and recorded once more half a second
  later.
\<close>

definition row1 :: dose_log where
  "row1 = \<lparr>log_id = 50, medication_id = 1, timestamp_taken = 34200000,
            scheduled_time = hours 8, taken_on_time = True, reward_earned = True,
            created_at = 34200000\<rparr>"

definition row2 :: dose_log where
  "row2 = \<lparr>log_id = 51, medication_id = 1, timestamp_taken = 34200500,
            scheduled_time = hours 8, taken_on_time = True, reward_earned = True,
            created_at = 34200500\<rparr>"

definition db1 :: database where
  "db1 = db0\<lparr>dose_logs := [row1]\<rparr>"

definition db2 :: database where
  "db2 = db0\<lparr>dose_logs := [row1, row2]\<rparr>"

definition res_ok :: log_dose_result where
  "res_ok = \<lparr>success = True, res_taken_on_time = True, res_reward_earned = True\<rparr>"

text \<open>
  A row object with a value for each column but \<open>id\<close> and \<open>created_at\<close>, and no
  other key; and the same object with the id of a row that is stored already.
\<close>

definition payload1 :: dose_log_insert where
  "payload1 = \<lparr>ins_id = None, ins_medication_id = Some 1,
                ins_timestamp_taken = Some 34200500, ins_scheduled_time = Some (hours 8),
                ins_taken_on_time = Some True, ins_reward_earned = Some True,
                ins_created_at = None, other_keys = []\<rparr>"

definition payload_stored_id :: dose_log_insert where
  "payload_stored_id = payload1\<lparr>ins_id := Some 50\<rparr>"

text \<open>A log of the 08:00 dose of medication 2 whose \<open>taken_on_time\<close> is false.\<close>

definition late_row :: dose_log where
  "late_row = \<lparr>log_id = 60, medication_id = 2, timestamp_taken = hours 13,
            scheduled_time = hours 8, taken_on_time = False, reward_earned = False,
            created_at = hours 13\<rparr>"

text \<open>
  The 08:00 dose of medication 2 as the dose-logging page lists it at 09:00 when no log
  is stored, and a page on which no flag is set.
\<close>

definition doseA :: scheduled_dose where
  "doseA = \<lparr>medication = medA, doseNumber = 1, scheduledTime = hours 8, status = Late\<rparr>"

definition no_flags :: page_flags where
  "no_flags = \<lparr>justTaken = (\<lambda>k. False), justMissed = (\<lambda>k. False)\<rparr>"

section \<open>Auxiliary facts\<close>

lemma log_dose_Inr_iff:
  "log_dose db s m sch act = Inr (db', r) \<longleftrightarrow>
     \<not> sql_if (sql_ne (select_user_id db m) (auth_uid s)) \<and>
     insert_dose_log db
       \<lparr>log_id = gen_random_uuid s, medication_id = m, timestamp_taken = act,
        scheduled_time = sch, taken_on_time = (act \<le> sch + hours 4),
        reward_earned = (act \<le> sch + hours 4), created_at = sql_now s\<rparr> = Inr db' \<and>
     r = \<lparr>success = True, res_taken_on_time = (act \<le> sch + hours 4),
          res_reward_earned = (act \<le> sch + hours 4)\<rparr>"
  by (auto simp: log_dose_def Let_def split: sum.splits)

lemma insert_dose_log_Inr:
  "insert_dose_log db r = Inr db' \<Longrightarrow> dose_logs db' = dose_logs db @ [r]"
  by (auto simp: insert_dose_log_def split: if_splits)

lemma select_user_id_None:
  "m \<notin> set (map med_id (medications db)) \<Longrightarrow> select_user_id db m = None"
  by (auto simp: select_user_id_def find_None_iff)

lemma select_user_id_owner:
  assumes "m \<in> set (map med_id (medications db))"
  shows "\<exists>md\<in>set (medications db). med_id md = m \<and> select_user_id db m = Some (user_id md)"
proof (cases "find (\<lambda>x. med_id x = m) (medications db)")
  case None
  with assms show ?thesis by (auto simp: find_None_iff)
next
  case (Some md)
  then have "md \<in> set (medications db)" and "med_id md = m"
    by (auto simp: find_Some_iff)
  with Some show ?thesis by (auto simp: select_user_id_def)
qed

lemma owner_passes_check:
  assumes "m \<in> set (map med_id (medications db))" and "auth_uid s = select_user_id db m"
  shows "\<not> sql_if (sql_ne (select_user_id db m) (auth_uid s))"
  using select_user_id_owner [OF assms(1)] assms(2)
  by (auto simp: sql_if_def sql_ne_def)

lemma owner_satisfies_policy:
  assumes "mid \<in> set (map med_id (medications db))"
    and "auth_uid s = select_user_id db mid"
  shows "insert_policy db s mid"
  using select_user_id_owner [OF assms(1)] assms(2)
  by (auto simp: insert_policy_def list_ex_iff)

lemma startOfDay_idem: "startOfDay tz (startOfDay tz t) = startOfDay tz t"
  by (simp add: startOfDay_def days_def)

lemma scheduledTimeOf_dose_clock:
  "scheduledTimeOf tz day frequency i
     = startOfDay tz day + hours (fst (dose_clock frequency i))
         + snd (dose_clock frequency i) * 60000"
  by (simp add: scheduledTimeOf_def dose_clock_def setHours_def Let_def)

text \<open>
  The clock times the arithmetic yields. With frequency 3 the exact hours would be
  13:20 and 18:40; the rounded quotient and sum fall just below them, and the minute is
  truncated.
\<close>

lemmas js_arith = dose_clock_def dose_hour_def js_add_def js_mul_def js_div_def
  js_of_int_def fl_def js_floor_def js_trunc_def js_mod1_def round_half_even_div_def
  Let_def bit_length.simps

lemma dose_clock_1_0: "dose_clock 1 0 = (8, 0)"
  by (simp add: js_arith)

lemma dose_clock_2_0: "dose_clock 2 0 = (8, 0)"
  by (simp add: js_arith)

lemma dose_clock_2_1: "dose_clock 2 1 = (16, 0)"
  by (simp add: js_arith)

lemma dose_clock_8_7: "dose_clock 8 7 = (22, 0)"
  by (simp add: js_arith)

lemma dose_clock_3_1: "dose_clock 3 1 = (13, 19)"
  by (simp add: js_arith)

lemma dose_clock_3_2: "dose_clock 3 2 = (18, 39)"
  by (simp add: js_arith)

lemma scheduledTimeOf_2:
  "scheduledTimeOf tz (startOfDay tz now) 2 0 = startOfDay tz now + hours 8"
  "scheduledTimeOf tz (startOfDay tz now) 2 1 = startOfDay tz now + hours 16"
  by (simp_all add: scheduledTimeOf_dose_clock dose_clock_2_0 dose_clock_2_1
        startOfDay_idem)

lemma scheduledTimeOf_once:
  "scheduledTimeOf tz day 1 0 = startOfDay tz day + hours 8"
  by (simp add: scheduledTimeOf_dose_clock dose_clock_1_0)

text \<open>
  Both calls of \<open>ROUND\<close> in the summary have a \<open>float\<close> as first argument, and no
  declared \<open>round\<close> takes a \<open>float\<close> and an integer.
\<close>

lemma summary_types: "weekly_type = Float8" "rate_type = Float8"
  by (simp_all add: weekly_type_def rate_type_def avg_type_def promote_def)

lemma round_float_unresolved:
  "resolve_round [Float8, Integer] = Inl (UndefinedFunction ''round'' [Float8, Integer])"
  by (simp add: resolve_round_def round_signatures_def implicit_cast_def)

text \<open>A \<open>numeric\<close> argument would resolve, to \<open>round(numeric, integer)\<close>.\<close>

lemma round_numeric_resolved: "resolve_round [Numeric, Integer] = Inr [Numeric, Integer]"
  by (simp add: resolve_round_def round_signatures_def implicit_cast_def)

text \<open>An insert that names the id of a stored row is refused by the primary key.\<close>

lemma rest_insert_stored_id:
  "rest_insert_dose_logs db1 (sess 51 34200500) payload_stored_id = Inl UniqueViolation"
  by (simp add: rest_insert_dose_logs_def named_columns_def dose_logs_columns_def
        insert_dose_log_def payload_stored_id_def payload1_def db1_def db0_def row1_def
        med1_def sess_def)

section \<open>Recording doses\<close>

text \<open>
  C1, as stated, fails: the data layer rejects nothing. The 08:00 dose of medication 1 is
  recorded twice by its owner; both calls of \<open>log_dose\<close> succeed and two logs are
  stored for the same medication and scheduled instant.
\<close>

theorem log_dose_twice_counterexample:
  "log_dose db0 (sess 50 34200000) 1 (hours 8) 34200000 = Inr (db1, res_ok)
   \<and> log_dose db1 (sess 51 34200500) 1 (hours 8) 34200500 = Inr (db2, res_ok)
   \<and> logs_for db2 1 (hours 8) = [row1, row2]"
  by (simp add: log_dose_def insert_dose_log_def select_user_id_def sql_if_def
        sql_ne_def db0_def db1_def db2_def row1_def row2_def res_ok_def med1_def sess_def
        hours_def logs_for_def iso_minute_def)

text \<open>
  C1, amended. The table has no uniqueness constraint besides its primary key, and
  neither way of recording looks for an existing log. When the medication exists, the
  caller owns it and the id generated for the row is new, \<open>log_dose\<close> succeeds
  whatever logs are already stored. So does a direct insert whose row object has no key
  besides the names of the columns, gives values for the medication, the scheduled time,
  the time taken and \<open>taken_on_time\<close>, and gives no id or an id that no stored row
  has. Each adds one row, so the number of logs stored for the medication and scheduled
  minute grows by one.
\<close>

theorem record_appends_despite_existing_log:
  assumes med: "m \<in> set (map med_id (medications db))"
    and owner: "auth_uid s = select_user_id db m"
    and fresh: "gen_random_uuid s \<notin> set (map log_id (dose_logs db))"
    and keys: "other_keys p = []"
    and pm: "ins_medication_id p = Some m"
    and ps: "ins_scheduled_time p = Some sch"
    and pt: "ins_timestamp_taken p = Some taken"
    and po: "ins_taken_on_time p = Some on_time"
    and pid: "(case ins_id p of None \<Rightarrow> gen_random_uuid s | Some i \<Rightarrow> i)
                \<notin> set (map log_id (dose_logs db))"
  shows "(case log_dose db s m sch act of
            Inl e \<Rightarrow> False
          | Inr (db', r) \<Rightarrow>
              length (dose_logs db') = length (dose_logs db) + 1
              \<and> length (logs_for db' m sch) = length (logs_for db m sch) + 1)
         \<and> (case rest_insert_dose_logs db s p of
               Inl e \<Rightarrow> False
             | Inr db' \<Rightarrow>
                 length (dose_logs db') = length (dose_logs db) + 1
                 \<and> length (logs_for db' m sch) = length (logs_for db m sch) + 1)"
proof -
  have chk: "\<not> sql_if (sql_ne (select_user_id db m) (auth_uid s))"
    using med owner by (rule owner_passes_check)
  have rpc: "case log_dose db s m sch act of
            Inl e \<Rightarrow> False
          | Inr (db', r) \<Rightarrow>
              length (dose_logs db') = length (dose_logs db) + 1
              \<and> length (logs_for db' m sch) = length (logs_for db m sch) + 1"
    using chk med fresh
    by (simp add: log_dose_def insert_dose_log_def logs_for_def Let_def)
  have none: "find (\<lambda>c. c \<notin> set dose_logs_columns) (named_columns p) = None"
    using keys by (auto simp: find_None_iff named_columns_def dose_logs_columns_def)
  have pol: "insert_policy db s m"
    using med owner by (rule owner_satisfies_policy)
  have rest: "case rest_insert_dose_logs db s p of
               Inl e \<Rightarrow> False
             | Inr db' \<Rightarrow>
                 length (dose_logs db') = length (dose_logs db) + 1
                 \<and> length (logs_for db' m sch) = length (logs_for db m sch) + 1"
    using med pid pol
    by (simp add: rest_insert_dose_logs_def none pm ps pt po insert_dose_log_def
          logs_for_def)
  from rpc rest show ?thesis by simp
qed

theorem record_appends_despite_existing_log_witness:
  "length (logs_for db1 1 (hours 8)) = 1
   \<and> log_dose db1 (sess 51 34200500) 1 (hours 8) 34200500 = Inr (db2, res_ok)
   \<and> rest_insert_dose_logs db1 (sess 51 34200500) payload1 = Inr db2
   \<and> length (logs_for db2 1 (hours 8)) = 2"
proof -
  have 1: "1 \<in> set (map med_id (medications db1))"
    by (simp add: db1_def db0_def med1_def)
  have 2: "auth_uid (sess 51 34200500) = select_user_id db1 1"
    by (simp add: db1_def db0_def med1_def select_user_id_def sess_def)
  have 3: "gen_random_uuid (sess 51 34200500) \<notin> set (map log_id (dose_logs db1))"
    by (simp add: db1_def db0_def row1_def sess_def)
  have 4: "other_keys payload1 = []"
    by (simp add: payload1_def)
  have 5: "ins_medication_id payload1 = Some 1"
    and 6: "ins_scheduled_time payload1 = Some (hours 8)"
    and 7: "ins_timestamp_taken payload1 = Some 34200500"
    and 8: "ins_taken_on_time payload1 = Some True"
    by (simp_all add: payload1_def)
  have 9: "(case ins_id payload1 of None \<Rightarrow> gen_random_uuid (sess 51 34200500)
            | Some i \<Rightarrow> i) \<notin> set (map log_id (dose_logs db1))"
    by (simp add: payload1_def db1_def db0_def row1_def sess_def)
  have a: "log_dose db1 (sess 51 34200500) 1 (hours 8) 34200500 = Inr (db2, res_ok)"
    by (simp add: log_dose_def insert_dose_log_def select_user_id_def sql_if_def
          sql_ne_def db0_def db1_def db2_def row1_def row2_def res_ok_def med1_def
          sess_def hours_def)
  have b: "rest_insert_dose_logs db1 (sess 51 34200500) payload1 = Inr db2"
    by (simp add: rest_insert_dose_logs_def insert_dose_log_def payload1_def
          named_columns_def dose_logs_columns_def db0_def db1_def db2_def row1_def
          row2_def med1_def sess_def hours_def)
  have c: "length (logs_for db1 1 (hours 8)) = 1"
    by (simp add: logs_for_def db1_def db0_def row1_def)
  from record_appends_despite_existing_log [OF 1 2 3 4 5 6 7 8 9, of 34200500] a b c
  show ?thesis by simp
qed

text \<open>
  C6. Whenever \<open>log_dose\<close> succeeds, it has appended exactly one row, whose
  \<open>taken_on_time\<close> is \<open>p_actual_time \<le> p_scheduled_time + 4 hours\<close> and whose
  \<open>reward_earned\<close> equals \<open>taken_on_time\<close>; the returned object reports the same
  two values.
\<close>

theorem log_dose_taken_on_time:
  assumes "log_dose db s m sch act = Inr (db', r)"
  shows "dose_logs db' = dose_logs db @ [last (dose_logs db')]
         \<and> medication_id (last (dose_logs db')) = m
         \<and> scheduled_time (last (dose_logs db')) = sch
         \<and> timestamp_taken (last (dose_logs db')) = act
         \<and> taken_on_time (last (dose_logs db')) = (act \<le> sch + hours 4)
         \<and> reward_earned (last (dose_logs db')) = taken_on_time (last (dose_logs db'))
         \<and> res_taken_on_time r = taken_on_time (last (dose_logs db'))
         \<and> res_reward_earned r = taken_on_time (last (dose_logs db'))"
proof -
  let ?row = "\<lparr>log_id = gen_random_uuid s, medication_id = m, timestamp_taken = act,
               scheduled_time = sch, taken_on_time = (act \<le> sch + hours 4),
               reward_earned = (act \<le> sch + hours 4), created_at = sql_now s\<rparr>"
  from assms have ins: "insert_dose_log db ?row = Inr db'"
    and r: "r = \<lparr>success = True, res_taken_on_time = (act \<le> sch + hours 4),
                 res_reward_earned = (act \<le> sch + hours 4)\<rparr>"
    by (simp_all add: log_dose_Inr_iff)
  from ins have "dose_logs db' = dose_logs db @ [?row]"
    by (rule insert_dose_log_Inr)
  with r show ?thesis by simp
qed

text \<open>
  The 08:00 dose (instant \<open>hours 8\<close>) taken at 09:30 is on time and rewarded; taken at
  13:00 it is neither.
\<close>

theorem log_dose_taken_on_time_witness:
  "log_dose db0 (sess 50 34200000) 1 (hours 8) 34200000
     = Inr (db0\<lparr>dose_logs :=
              [\<lparr>log_id = 50, medication_id = 1, timestamp_taken = 34200000,
                scheduled_time = hours 8, taken_on_time = True, reward_earned = True,
                created_at = 34200000\<rparr>]\<rparr>,
            \<lparr>success = True, res_taken_on_time = True, res_reward_earned = True\<rparr>)
   \<and> log_dose db0 (sess 50 46800000) 1 (hours 8) 46800000
     = Inr (db0\<lparr>dose_logs :=
              [\<lparr>log_id = 50, medication_id = 1, timestamp_taken = 46800000,
                scheduled_time = hours 8, taken_on_time = False, reward_earned = False,
                created_at = 46800000\<rparr>]\<rparr>,
            \<lparr>success = True, res_taken_on_time = False, res_reward_earned = False\<rparr>)"
proof -
  have a: "log_dose db0 (sess 50 34200000) 1 (hours 8) 34200000
     = Inr (db0\<lparr>dose_logs :=
              [\<lparr>log_id = 50, medication_id = 1, timestamp_taken = 34200000,
                scheduled_time = hours 8, taken_on_time = True, reward_earned = True,
                created_at = 34200000\<rparr>]\<rparr>,
            \<lparr>success = True, res_taken_on_time = True, res_reward_earned = True\<rparr>)"
    by (simp add: log_dose_def insert_dose_log_def select_user_id_def sql_if_def
        sql_ne_def db0_def med1_def sess_def hours_def)
  have b: "log_dose db0 (sess 50 46800000) 1 (hours 8) 46800000
     = Inr (db0\<lparr>dose_logs :=
              [\<lparr>log_id = 50, medication_id = 1, timestamp_taken = 46800000,
                scheduled_time = hours 8, taken_on_time = False, reward_earned = False,
                created_at = 46800000\<rparr>]\<rparr>,
            \<lparr>success = True, res_taken_on_time = False, res_reward_earned = False\<rparr>)"
    by (simp add: log_dose_def insert_dose_log_def select_user_id_def sql_if_def
        sql_ne_def db0_def med1_def sess_def hours_def)
  note log_dose_taken_on_time [OF a] log_dose_taken_on_time [OF b]
  with a b show ?thesis by simp
qed

text \<open>
  C8. The row object of \<open>handleMarkAsMissed\<close> names the columns \<open>missed\<close> and
  \<open>user_id\<close>, which \<open>dose_logs\<close> does not have: for every state, session, dose and
  time the insert is refused and no row is written.
\<close>

theorem handleMarkAsMissed_rejected:
  "handleMarkAsMissed db s d clock = Inl (UndefinedColumn ''missed'')"
  by (simp add: handleMarkAsMissed_def rest_insert_dose_logs_def named_columns_def
        dose_logs_columns_def)

text \<open>
  C10. When no medication has the id passed to \<open>log_dose\<close>, \<open>v_user_id\<close> is NULL,
  the comparison with \<open>auth.uid()\<close> is NULL, and \<open>Not authorized\<close> is not raised:
  the result of the call is the result of the insert, which the constraints of the
  table then refuse.
\<close>

theorem log_dose_unknown_medication:
  assumes "m \<notin> set (map med_id (medications db))"
  shows "log_dose db s m sch act \<noteq> Inl NotAuthorized
         \<and> log_dose db s m sch act =
             (case insert_dose_log db
                     \<lparr>log_id = gen_random_uuid s, medication_id = m,
                      timestamp_taken = act, scheduled_time = sch,
                      taken_on_time = (act \<le> sch + hours 4),
                      reward_earned = (act \<le> sch + hours 4),
                      created_at = sql_now s\<rparr> of
                Inl e \<Rightarrow> Inl e
              | Inr db' \<Rightarrow> Inr (db', \<lparr>success = True,
                                      res_taken_on_time = (act \<le> sch + hours 4),
                                      res_reward_earned = (act \<le> sch + hours 4)\<rparr>))
         \<and> log_dose db s m sch act \<in> {Inl UniqueViolation, Inl ForeignKeyViolation}"
  using assms
  by (simp add: log_dose_def select_user_id_None sql_ne_def sql_if_def insert_dose_log_def)

theorem log_dose_unknown_medication_witness:
  "log_dose db0 (sess 50 34200000) 2 (hours 8) 34200000 = Inl ForeignKeyViolation
   \<and> log_dose db0 (sess 50 34200000) 2 (hours 8) 34200000 \<noteq> Inl NotAuthorized"
proof -
  have 1: "2 \<notin> set (map med_id (medications db0))"
    by (simp add: db0_def med1_def)
  from log_dose_unknown_medication [OF 1, of "sess 50 34200000" "hours 8" 34200000]
  show ?thesis
    by (simp add: insert_dose_log_def db0_def med1_def sess_def)
qed

section \<open>Schedule and classification in the views\<close>

text \<open>
  C2. The generator spreads the doses over sixteen hours from 08:00, not over the twelve
  hours from 08:00 to 20:00: a medication with frequency 2 has its doses at 08:00 and
  16:00 (not 14:00), and with frequency 8 the last dose is at 22:00.
\<close>

theorem schedule_frequency_2:
  "map (dose_clock 2) [0 .. 2 - 1] = [(8, 0), (16, 0)]
   \<and> map scheduledTime (logging_generateScheduledDoses tz logs [med1] now)
       = [startOfDay tz now + hours 8, startOfDay tz now + hours 16]
   \<and> last (map (dose_clock 8) [0 .. 8 - 1]) = (22, 0)"
proof -
  have a: "map (dose_clock 2) [0 .. 2 - 1] = [(8, 0), (16, 0)]"
    by (simp add: upto.simps dose_clock_2_0 dose_clock_2_1)
  have b: "map scheduledTime (logging_generateScheduledDoses tz logs [med1] now)
       = [startOfDay tz now + hours 8, startOfDay tz now + hours 16]"
    by (simp add: logging_generateScheduledDoses_def logging_dose_def med1_def upto.simps
          scheduledTimeOf_2 Let_def hours_def)
  have c: "last (map (dose_clock 8) [0 .. 8 - 1]) = (22, 0)"
    by (simp add: upto.simps dose_clock_8_7)
  from a b c show ?thesis by simp
qed

text \<open>
  C3. At the scheduled instant itself (\<open>now = scheduledInstant\<close>, no log) the
  dose-logging view classifies the dose as pending, where the claim puts it in the
  due window; the interval test of the reminders view does include that instant. The
  upper boundary is as claimed: one second before the end of the four hours the dose is
  late, one second after it is missed.
\<close>

theorem dose_status_at_scheduled_instant:
  "dose_status [] st m st = Pending
   \<and> isWithinInterval st st (addHours st 4)
   \<and> dose_status [] (st + hours 4 - 1000) m st = Late
   \<and> dose_status [] (st + hours 4) m st = Late
   \<and> dose_status [] (st + hours 4 + 1000) m st = Missed"
  by (simp add: dose_status_def find_doseLog_def addHours_def hours_def
        isWithinInterval_def)

text \<open>The four branches of the classification of the dose-logging view.\<close>

lemma dose_status_cases:
  "dose_status logs now m st =
     (if find_doseLog logs m st \<noteq> None then Taken
      else if st + hours 4 < now then Missed
      else if st < now then Late else Pending)"
  by (simp add: dose_status_def addHours_def split: option.splits)

text \<open>
  C4, as stated, fails: with no logs at 13:00, the dose-logging view lists the 08:00 dose
  of a once-a-day medication as missed, while the list of the reminders view starts with
  the dose of the next day.
\<close>

theorem views_differ_counterexample:
  "logging_generateScheduledDoses 0 [] [medA] (hours 13)
     = [\<lparr>medication = medA, doseNumber = 1, scheduledTime = hours 8, status = Missed\<rparr>]
   \<and> map scheduledTime (reminders_generateScheduledDoses 0 [] [medA] (hours 13))
     = [days 1 + hours 8, days 2 + hours 8, days 3 + hours 8, days 4 + hours 8,
        days 5 + hours 8, days 6 + hours 8]"
  by (simp add: logging_generateScheduledDoses_def logging_dose_def scheduledTimeOf_once
        upto.simps startOfDay_def
        hours_def days_def dose_status_def find_doseLog_def addHours_def addDays_def
        reminders_generateScheduledDoses_def reminders_medication_doses_def
        reminders_dose_def endOfDay_def isWithinInterval_def isToday_def isTomorrow_def
        isFuture_def isSameDay_def List.map_filter_def medA_def)

text \<open>
  C4, amended. For a dose that both views compute (same medication, day, dose index,
  logs and clock) and a clock that is not exactly the scheduled instant: the reminders
  view lists the dose if and only if the dose-logging view classifies it as pending or
  late, with the same medication, dose number and scheduled time, and marks it due if and
  only if the dose-logging view classifies it as late; doses that the dose-logging view
  classifies as taken or missed are left out by the reminders view.
\<close>

theorem views_agree_off_boundary:
  assumes "now \<noteq> scheduledTimeOf tz day (frequency_per_day m) i"
  shows "(case reminders_dose tz logs now day m i of
            None \<Rightarrow> status (logging_dose tz logs now day m i) \<in> {Taken, Missed}
          | Some d \<Rightarrow>
              status (logging_dose tz logs now day m i) \<in> {Pending, Late}
              \<and> (isDue d \<longleftrightarrow> status (logging_dose tz logs now day m i) = Late)
              \<and> medication d = medication (logging_dose tz logs now day m i)
              \<and> doseNumber d = doseNumber (logging_dose tz logs now day m i)
              \<and> scheduledTime d = scheduledTime (logging_dose tz logs now day m i))"
  using assms
  by (auto simp: reminders_dose_def logging_dose_def dose_status_def Let_def
        isWithinInterval_def addHours_def hours_def split: option.splits)

theorem views_agree_off_boundary_witness:
  "hours 9 \<noteq> scheduledTimeOf 0 0 (frequency_per_day medA) 0
   \<and> reminders_dose 0 [] (hours 9) 0 medA 0
       = Some \<lparr>medication = medA, doseNumber = 1, scheduledTime = hours 8,
               isToday_flag = True, isTomorrow_flag = False, isUpcoming = False,
               isDue = True\<rparr>
   \<and> status (logging_dose 0 [] (hours 9) 0 medA 0) = Late"
proof -
  have st: "scheduledTimeOf 0 0 (frequency_per_day medA) 0 = hours 8"
    by (simp add: scheduledTimeOf_once startOfDay_def medA_def)
  have ne: "hours 9 \<noteq> scheduledTimeOf 0 0 (frequency_per_day medA) 0"
    by (simp add: st hours_def)
  have r: "reminders_dose 0 [] (hours 9) 0 medA 0
       = Some \<lparr>medication = medA, doseNumber = 1, scheduledTime = hours 8,
               isToday_flag = True, isTomorrow_flag = False, isUpcoming = False,
               isDue = True\<rparr>"
    by (simp add: reminders_dose_def st find_doseLog_def isWithinInterval_def
          addHours_def addDays_def isToday_def isTomorrow_def isFuture_def isSameDay_def
          startOfDay_def hours_def days_def)
  from views_agree_off_boundary [OF ne, of "[]"] r ne show ?thesis
    by simp
qed

text \<open>
  C9, as stated, fails on what is displayed. At 09:00, with no log stored, the user
  clicks \<open>Mark as Missed\<close> on the 08:00 dose: the flag of the dose is set, the insert
  is refused, the dose is still classified as late, and its card shows the badge
  \<open>Missed\<close> and the line \<open>Medication Missed\<close>. With the flag set the badge reads
  \<open>Missed\<close> also for a dose whose status is taken.
\<close>

theorem marked_missed_shown_missed_counterexample:
  "logging_generateScheduledDoses 0 (dose_logs dbA) [medA] (hours 9) = [doseA]
   \<and> snd (handleMarkAsMissed_page no_flags dbA (sess 70 (hours 9)) doseA (hours 9))
       = Inl (UndefinedColumn ''missed'')
   \<and> shownBadge (fst (handleMarkAsMissed_page no_flags dbA (sess 70 (hours 9)) doseA
                         (hours 9))) doseA = ''Missed''
   \<and> showsMedicationMissed (fst (handleMarkAsMissed_page no_flags dbA (sess 70 (hours 9))
                                    doseA (hours 9))) doseA
   \<and> dose_status [late_row] (hours 23) medA (hours 8) = Taken
   \<and> shownBadge (fst (handleMarkAsMissed_page no_flags dbA (sess 70 (hours 9)) doseA
                         (hours 9))) (doseA\<lparr>status := Taken\<rparr>) = ''Missed''"
proof -
  have a: "logging_generateScheduledDoses 0 (dose_logs dbA) [medA] (hours 9) = [doseA]"
    by (simp add: logging_generateScheduledDoses_def logging_dose_def scheduledTimeOf_once
          upto.simps startOfDay_def hours_def days_def dose_status_def find_doseLog_def
          addHours_def medA_def dbA_def doseA_def)
  have b: "snd (handleMarkAsMissed_page no_flags dbA (sess 70 (hours 9)) doseA (hours 9))
       = Inl (UndefinedColumn ''missed'')"
    by (simp add: handleMarkAsMissed_page_def handleMarkAsMissed_def
          rest_insert_dose_logs_def named_columns_def dose_logs_columns_def)
  have c: "shownBadge (fst (handleMarkAsMissed_page no_flags dbA (sess 70 (hours 9)) doseA
                         (hours 9))) doseA = ''Missed''"
    by (simp add: handleMarkAsMissed_page_def shownBadge_def no_flags_def
          getStatusBadge_def)
  have d: "showsMedicationMissed (fst (handleMarkAsMissed_page no_flags dbA
                                    (sess 70 (hours 9)) doseA (hours 9))) doseA"
    by (simp add: handleMarkAsMissed_page_def showsMedicationMissed_def)
  have e: "dose_status [late_row] (hours 23) medA (hours 8) = Taken"
    by (simp add: dose_status_def find_doseLog_def late_row_def medA_def)
  have f: "shownBadge (fst (handleMarkAsMissed_page no_flags dbA (sess 70 (hours 9)) doseA
                         (hours 9))) (doseA\<lparr>status := Taken\<rparr>) = ''Missed''"
    by (simp add: handleMarkAsMissed_page_def shownBadge_def no_flags_def
          getStatusBadge_def doseKey_def)
  from a b c d e f show ?thesis by simp
qed

text \<open>
  C9, amended. A dose with a stored log for its medication and scheduled minute is
  classified as taken whatever the log says, also when its \<open>taken_on_time\<close> is false,
  and never as missed. The badge of its card reads \<open>Taken\<close>, except when the flag
  \<open>justMissed\<close> of the page is set for the dose and \<open>justTaken\<close> is not: then it
  reads \<open>Missed\<close>. Clicking \<open>Mark as Missed\<close> sets that flag for the dose.
\<close>

theorem logged_dose_classified_taken:
  assumes "l \<in> set logs" and "medication_id l = med_id m"
    and "iso_minute (scheduled_time l) = iso_minute st"
  shows "dose_status logs now m st = Taken
         \<and> dose_status logs now m st \<noteq> Missed
         \<and> shownBadge flags \<lparr>medication = m, doseNumber = n, scheduledTime = st,
                               status = dose_status logs now m st\<rparr>
             = (if justMissed flags (med_id m, n, st) \<and> \<not> justTaken flags (med_id m, n, st)
                then ''Missed'' else ''Taken'')
         \<and> justMissed (fst (handleMarkAsMissed_page flags db s d clock)) (doseKey d)"
proof -
  from assms have "find_doseLog logs m st \<noteq> None"
    by (auto simp: find_doseLog_def find_None_iff)
  then have t: "dose_status logs now m st = Taken"
    by (auto simp: dose_status_def)
  have b: "shownBadge flags \<lparr>medication = m, doseNumber = n, scheduledTime = st,
                               status = Taken\<rparr>
             = (if justMissed flags (med_id m, n, st) \<and> \<not> justTaken flags (med_id m, n, st)
                then ''Missed'' else ''Taken'')"
    by (simp add: shownBadge_def doseKey_def getStatusBadge_def)
  have c: "justMissed (fst (handleMarkAsMissed_page flags db s d clock)) (doseKey d)"
    by (simp add: handleMarkAsMissed_page_def)
  from t b c show ?thesis by simp
qed

theorem logged_dose_classified_taken_witness:
  "dose_status [late_row] (hours 23) medA (hours 8) = Taken
   \<and> taken_on_time late_row = False
   \<and> shownBadge no_flags \<lparr>medication = medA, doseNumber = 1, scheduledTime = hours 8,
                            status = dose_status [late_row] (hours 23) medA (hours 8)\<rparr>
       = ''Taken''"
proof -
  have h1: "late_row \<in> set [late_row]" by simp
  have h2: "medication_id late_row = med_id medA"
    by (simp add: late_row_def medA_def)
  have h3: "iso_minute (scheduled_time late_row) = iso_minute (hours 8)"
    by (simp add: late_row_def)
  note th = logged_dose_classified_taken [where l = late_row and logs = "[late_row]"
      and m = medA and st = "hours 8" and now = "hours 23" and flags = no_flags
      and n = 1 and db = dbA and s = "sess 70 0" and d = doseA and clock = 0,
      OF h1 h2 h3]
  from th have t: "dose_status [late_row] (hours 23) medA (hours 8) = Taken"
    by (rule conjunct1)
  from th have b: "shownBadge no_flags
        \<lparr>medication = medA, doseNumber = 1, scheduledTime = hours 8,
         status = dose_status [late_row] (hours 23) medA (hours 8)\<rparr>
       = (if justMissed no_flags (med_id medA, 1, hours 8)
             \<and> \<not> justTaken no_flags (med_id medA, 1, hours 8)
          then ''Missed'' else ''Taken'')"
    by blast
  have c: "\<not> justMissed no_flags (med_id medA, 1, hours 8)"
    by (simp add: no_flags_def)
  have d: "taken_on_time late_row = False"
    by (simp add: late_row_def)
  from t b c d show ?thesis by simp
qed

section \<open>The adherence summary\<close>

text \<open>
  C5. \<open>get_adherence_summary\<close> returns no percentage: for every state, user and time
  the call of \<open>ROUND\<close> on the average, a \<open>float\<close>, with the integer 2 resolves to no
  declared function, and the function raises \<open>undefined_function\<close>; so it does for
  the user whose seven logs of one day are on time but one.
\<close>

theorem get_adherence_summary_raises:
  "get_adherence_summary rank db u now = Inl (UndefinedFunction ''round'' [Float8, Integer])
   \<and> get_adherence_summary no_rank db_day 7 (days 5)
       = Inl (UndefinedFunction ''round'' [Float8, Integer])"
  by (simp add: get_adherence_summary_def summary_types round_float_unresolved)

text \<open>
  C7. \<open>get_adherence_summary\<close> returns no ranking: the subquery of \<open>most_missed\<close>
  belongs to the statement whose calls of \<open>ROUND\<close> do not resolve, so whatever the
  stored logs, no summary and no list of missed medications is returned.
\<close>

theorem most_missed_never_returned:
  "get_adherence_summary rank db u now
     \<noteq> Inr \<lparr>weekly_adherence = w, most_missed = ranking, calendar_data = c\<rparr>
   \<and> get_adherence_summary no_rank db_missed 7 (days 5)
       = Inl (UndefinedFunction ''round'' [Float8, Integer])"
  by (simp add: get_adherence_summary_def summary_types round_float_unresolved)

end
